theory Spec2Isabelle
  imports Main "HOL-Library.Word"
begin

text \<open>
  A todo list in the browser: the class \<open>TodoApp\<close> of \<^verbatim>\<open>src/app.ts\<close> keeps an array of
  todos and a filter, writes the array to \<open>localStorage\<close> after every change and renders
  the filtered array into the document. The repository holds a second variant of the
  class, in which a todo has a priority. Every function of that variant that calls
  \<open>render\<close> or \<open>saveToStorage\<close> is modelled on its own, with the suffix \<open>_p\<close>.
\<close>

section \<open>Strings and numbers\<close>

text \<open>
  A JavaScript string is a sequence of UTF-16 code units. String literals of the source
  are ASCII and are written through \<open>ascii\<close>.
\<close>

type_synonym jsstring = "16 word list"

definition ascii :: "string \<Rightarrow> jsstring" where
  "ascii cs = map (\<lambda>c. of_nat (of_char c)) cs"

text \<open>
  \<open>String.prototype.trim\<close> removes the code units of the productions WhiteSpace and
  LineTerminator of ECMAScript from both ends: TAB, LF, VT, FF, CR, SP, NBSP, the
  space separators U+1680, U+2000 to U+200A, U+202F, U+205F, U+3000, the separators
  U+2028 and U+2029, and U+FEFF.
\<close>

definition isWhiteSpace :: "16 word \<Rightarrow> bool" where
  "isWhiteSpace u \<longleftrightarrow>
     u \<in> set [0x9, 0xA, 0xB, 0xC, 0xD, 0x20, 0xA0, 0x1680,
              0x2000, 0x2001, 0x2002, 0x2003, 0x2004, 0x2005, 0x2006, 0x2007,
              0x2008, 0x2009, 0x200A, 0x2028, 0x2029, 0x202F, 0x205F, 0x3000, 0xFEFF]"

definition trim :: "jsstring \<Rightarrow> jsstring" where
  "trim s = rev (dropWhile isWhiteSpace (rev (dropWhile isWhiteSpace s)))"

text \<open>A string in a condition is true when it is not empty.\<close>

definition ToBoolean :: "jsstring \<Rightarrow> bool" where
  "ToBoolean s \<longleftrightarrow> s \<noteq> []"

text \<open>
  \<open>Number.prototype.toString(36)\<close> of an integer: the digits \<open>0\<close> to \<open>9\<close> and \<open>a\<close> to
  \<open>z\<close>, most significant first, after a minus sign for a negative number.
\<close>

definition digit36 :: "nat \<Rightarrow> 16 word" where
  "digit36 d = (if d < 10 then of_nat (48 + d) else of_nat (87 + d))"

function digits36 :: "nat \<Rightarrow> jsstring" where
  "digits36 n = (if n < 36 then [digit36 n] else digits36 (n div 36) @ [digit36 (n mod 36)])"
  by pat_completeness auto
termination
  by (relation "measure (\<lambda>n. n)") auto

declare digits36.simps [simp del]

definition toString36 :: "int \<Rightarrow> jsstring" where
  "toString36 n = (if n < 0 then 0x2D # digits36 (nat (- n)) else digits36 (nat n))"

text \<open>The decimal text of a count, as \<open>toString()\<close> and a template literal give it.\<close>

function toString10 :: "nat \<Rightarrow> jsstring" where
  "toString10 n = (if n < 10 then [of_nat (48 + n)] else toString10 (n div 10) @ [of_nat (48 + n mod 10)])"
  by pat_completeness auto
termination
  by (relation "measure (\<lambda>n. n)") auto

declare toString10.simps [simp del]

section \<open>JSON\<close>

text \<open>
  The values that \<open>JSON.parse\<close> returns. A number is kept without its value: no
  operation of the program computes with one.
\<close>

datatype json =
    JNull
  | JBool bool
  | JNumber
  | JString jsstring
  | JArray "json list"
  | JObject "(jsstring \<times> json) list"

subsection \<open>Writing\<close>

text \<open>
  \<open>QuoteJSONString\<close> of ECMAScript: the quotation mark, the backslash and the control
  characters with a short form are written as two characters, the other code units
  below U+0020 and every surrogate that is not half of a pair as \<^verbatim>\<open>\uXXXX\<close> with lower-case
  digits, everything else as it is.
\<close>

definition hexdigit :: "nat \<Rightarrow> 16 word" where
  "hexdigit d = (if d < 10 then of_nat (48 + d) else of_nat (87 + d))"

definition UnicodeEscape :: "16 word \<Rightarrow> jsstring" where
  "UnicodeEscape c =
     [0x5C, 0x75, hexdigit (unat c div 4096 mod 16), hexdigit (unat c div 256 mod 16),
      hexdigit (unat c div 16 mod 16), hexdigit (unat c mod 16)]"

definition is_high :: "16 word \<Rightarrow> bool" where
  "is_high c \<longleftrightarrow> 0xD800 \<le> c \<and> c \<le> 0xDBFF"

definition is_low :: "16 word \<Rightarrow> bool" where
  "is_low c \<longleftrightarrow> 0xDC00 \<le> c \<and> c \<le> 0xDFFF"

definition quote_unit :: "16 word \<Rightarrow> jsstring" where
  "quote_unit c =
     (if c = 0x08 then [0x5C, 0x62]
      else if c = 0x09 then [0x5C, 0x74]
      else if c = 0x0A then [0x5C, 0x6E]
      else if c = 0x0C then [0x5C, 0x66]
      else if c = 0x0D then [0x5C, 0x72]
      else if c = 0x22 then [0x5C, 0x22]
      else if c = 0x5C then [0x5C, 0x5C]
      else if c < 0x20 \<or> is_high c \<or> is_low c then UnicodeEscape c
      else [c])"

fun quote_units :: "jsstring \<Rightarrow> jsstring" where
  "quote_units [] = []"
| "quote_units [c] = quote_unit c"
| "quote_units (c # d # cs) =
     (if is_high c \<and> is_low d then c # d # quote_units cs
      else quote_unit c @ quote_units (d # cs))"

definition QuoteJSONString :: "jsstring \<Rightarrow> jsstring" where
  "QuoteJSONString s = 0x22 # quote_units s @ [0x22]"

text \<open>The elements of an array, separated by commas, in brackets.\<close>

fun join_comma :: "jsstring list \<Rightarrow> jsstring" where
  "join_comma [] = []"
| "join_comma [x] = x"
| "join_comma (x # y # ys) = x @ 0x2C # join_comma (y # ys)"

definition array_text :: "jsstring list \<Rightarrow> jsstring" where
  "array_text xs = 0x5B # join_comma xs @ [0x5D]"

subsection \<open>Reading\<close>

text \<open>
  \<open>JSON.parse\<close> in two passes. The first cuts the text into tokens: the six
  punctuators, strings, numbers and the three literal names, with TAB, LF, CR and
  SP allowed between them.
\<close>

datatype token =
    LBrace | RBrace | LBracket | RBracket | Colon | Comma
  | TString jsstring | TNumber | TTrue | TFalse | TNull

definition hexvalue :: "16 word \<Rightarrow> nat option" where
  "hexvalue c =
     (if 0x30 \<le> c \<and> c \<le> 0x39 then Some (unat c - 48)
      else if 0x61 \<le> c \<and> c \<le> 0x66 then Some (unat c - 87)
      else if 0x41 \<le> c \<and> c \<le> 0x46 then Some (unat c - 55)
      else None)"

definition hex4 :: "16 word \<Rightarrow> 16 word \<Rightarrow> 16 word \<Rightarrow> 16 word \<Rightarrow> 16 word option" where
  "hex4 a b c d =
     (case (hexvalue a, hexvalue b, hexvalue c, hexvalue d) of
        (Some h3, Some h2, Some h1, Some h0) \<Rightarrow> Some (of_nat (4096 * h3 + 256 * h2 + 16 * h1 + h0))
      | _ \<Rightarrow> None)"

definition escaped :: "16 word \<Rightarrow> 16 word option" where
  "escaped e =
     (if e = 0x22 then Some 0x22
      else if e = 0x5C then Some 0x5C
      else if e = 0x2F then Some 0x2F
      else if e = 0x62 then Some 0x08
      else if e = 0x66 then Some 0x0C
      else if e = 0x6E then Some 0x0A
      else if e = 0x72 then Some 0x0D
      else if e = 0x74 then Some 0x09
      else None)"

text \<open>
  The characters of a string after its opening quotation mark, up to the closing one:
  the string denoted and the rest of the text.
\<close>

fun lex_string :: "jsstring \<Rightarrow> (jsstring \<times> jsstring) option" where
  "lex_string [] = None"
| "lex_string (c # cs) =
     (if c = 0x22 then Some ([], cs)
      else if c = 0x5C then
        (case cs of
           [] \<Rightarrow> None
         | e # es \<Rightarrow>
             if e = 0x75 then
               (case es of
                  h3 # h2 # h1 # h0 # rest \<Rightarrow>
                    (case hex4 h3 h2 h1 h0 of
                       None \<Rightarrow> None
                     | Some u \<Rightarrow>
                         (case lex_string rest of
                            None \<Rightarrow> None
                          | Some (v, r) \<Rightarrow> Some (u # v, r)))
                | _ \<Rightarrow> None)
             else
               (case escaped e of
                  None \<Rightarrow> None
                | Some u \<Rightarrow>
                    (case lex_string es of
                       None \<Rightarrow> None
                     | Some (v, r) \<Rightarrow> Some (u # v, r))))
      else if c < 0x20 then None
      else (case lex_string cs of None \<Rightarrow> None | Some (v, r) \<Rightarrow> Some (c # v, r)))"

text \<open>
  A number: an optional minus sign, \<open>0\<close> or a digit from 1 to 9 followed by digits, an
  optional fraction and an optional exponent. The result is the rest of the text.
\<close>

definition isDigit :: "16 word \<Rightarrow> bool" where
  "isDigit c \<longleftrightarrow> 0x30 \<le> c \<and> c \<le> 0x39"

definition lex_exponent :: "jsstring \<Rightarrow> jsstring option" where
  "lex_exponent s =
     (case s of
        [] \<Rightarrow> Some []
      | c # r \<Rightarrow>
          if c = 0x65 \<or> c = 0x45 then
            (let r' = (case r of [] \<Rightarrow> r | d # r2 \<Rightarrow> if d = 0x2B \<or> d = 0x2D then r2 else r)
             in case r' of
                  [] \<Rightarrow> None
                | d # _ \<Rightarrow> if isDigit d then Some (dropWhile isDigit r') else None)
          else Some s)"

definition lex_fraction :: "jsstring \<Rightarrow> jsstring option" where
  "lex_fraction s =
     (case s of
        [] \<Rightarrow> Some []
      | c # r \<Rightarrow>
          if c = 0x2E then
            (case r of
               [] \<Rightarrow> None
             | d # _ \<Rightarrow> if isDigit d then lex_exponent (dropWhile isDigit r) else None)
          else lex_exponent s)"

definition lex_number :: "jsstring \<Rightarrow> jsstring option" where
  "lex_number s =
     (let s1 = (case s of [] \<Rightarrow> s | c # r \<Rightarrow> if c = 0x2D then r else s)
      in case s1 of
           [] \<Rightarrow> None
         | c # r \<Rightarrow>
             if c = 0x30 then lex_fraction r
             else if isDigit c then lex_fraction (dropWhile isDigit r)
             else None)"

text \<open>The tokens of a text, or \<open>None\<close> when some part of it is no token.\<close>

function tokens :: "jsstring \<Rightarrow> token list option" where
  "tokens [] = Some []"
| "tokens (c # cs) =
     (if c = 0x09 \<or> c = 0x0A \<or> c = 0x0D \<or> c = 0x20 then tokens cs
      else if c = 0x7B then map_option (Cons LBrace) (tokens cs)
      else if c = 0x7D then map_option (Cons RBrace) (tokens cs)
      else if c = 0x5B then map_option (Cons LBracket) (tokens cs)
      else if c = 0x5D then map_option (Cons RBracket) (tokens cs)
      else if c = 0x3A then map_option (Cons Colon) (tokens cs)
      else if c = 0x2C then map_option (Cons Comma) (tokens cs)
      else if c = 0x22 then
        (case lex_string cs of
           None \<Rightarrow> None
         | Some (v, r) \<Rightarrow> map_option (Cons (TString v)) (tokens r))
      else if c = 0x74 then
        (if take 3 cs = ascii ''rue'' then map_option (Cons TTrue) (tokens (drop 3 cs)) else None)
      else if c = 0x66 then
        (if take 4 cs = ascii ''alse'' then map_option (Cons TFalse) (tokens (drop 4 cs)) else None)
      else if c = 0x6E then
        (if take 3 cs = ascii ''ull'' then map_option (Cons TNull) (tokens (drop 3 cs)) else None)
      else if c = 0x2D \<or> isDigit c then
        (case lex_number (c # cs) of
           None \<Rightarrow> None
         | Some r \<Rightarrow> map_option (Cons TNumber) (tokens r))
      else None)"
  by pat_completeness auto
termination
proof -
  have str: "length r \<le> length s" if "lex_string s = Some (v, r)" for s v r
    using that
  proof (induction s arbitrary: v r rule: lex_string.induct)
    case 1
    then show ?case by simp
  next
    case (2 c cs)
    show ?case
    proof (cases "c = 0x22")
      case True
      with "2.prems" show ?thesis by simp
    next
      case q: False
      show ?thesis
      proof (cases "c = 0x5C")
        case False
        with q "2.prems" "2.IH"(3) show ?thesis
          by (fastforce split: if_splits option.splits)
      next
        case b: True
        show ?thesis
        proof (cases cs)
          case Nil
          with q b "2.prems" show ?thesis by simp
        next
          case (Cons e es)
          show ?thesis
          proof (cases "e = 0x75")
            case False
            with q b Cons "2.prems" "2.IH"(2) [OF q b Cons False] show ?thesis
              by (fastforce split: option.splits)
          next
            case u: True
            from q b Cons u "2.prems" obtain h3 h2 h1 h0 rest w v' where
              es: "es = h3 # h2 # h1 # h0 # rest" and h: "hex4 h3 h2 h1 h0 = Some w"
              and l: "lex_string rest = Some (v', r)"
              by (auto split: list.splits option.splits)
            from "2.IH"(1) [OF q b Cons u es refl refl refl h l] Cons es show ?thesis by simp
          qed
        qed
      qed
    qed
  qed
  have dw: "length (dropWhile isDigit s) \<le> length s" for s
    by (rule length_dropWhile_le)
  have ex: "length r \<le> length s" if "lex_exponent s = Some r" for s r
    using that dw [of s] dw [of "tl s"] dw [of "tl (tl s)"]
    by (auto simp: lex_exponent_def Let_def split: list.splits if_splits)
  have fr: "length r \<le> length s" if "lex_fraction s = Some r" for s r
  proof (cases s)
    case Nil
    with that show ?thesis by (simp add: lex_fraction_def)
  next
    case (Cons c t)
    show ?thesis
    proof (cases "c = 0x2E")
      case False
      with that Cons ex [of s r] show ?thesis by (simp add: lex_fraction_def)
    next
      case True
      with that Cons obtain d t' where "t = d # t'" "lex_exponent (dropWhile isDigit t) = Some r"
        by (auto simp: lex_fraction_def split: list.splits if_splits)
      with ex [of "dropWhile isDigit t" r] dw [of t] Cons show ?thesis by simp
    qed
  qed
  have nu: "length r \<le> length cs" if "lex_number (c # cs) = Some r" "c = 0x2D \<or> isDigit c" for c cs r
  proof (cases "c = 0x2D")
    case True
    with that(1) obtain d t where cs: "cs = d # t"
      and d: "(d = 0x30 \<and> lex_fraction t = Some r)
              \<or> (isDigit d \<and> lex_fraction (dropWhile isDigit t) = Some r)"
      by (auto simp: lex_number_def split: list.splits if_splits)
    from d show ?thesis
      using fr [of t r] fr [of "dropWhile isDigit t" r] dw [of t] cs by auto
  next
    case False
    with that(1) have "(c = 0x30 \<and> lex_fraction cs = Some r)
              \<or> (isDigit c \<and> lex_fraction (dropWhile isDigit cs) = Some r)"
      by (auto simp: lex_number_def split: if_splits)
    then show ?thesis
      using fr [of cs r] fr [of "dropWhile isDigit cs" r] dw [of cs] by auto
  qed
  show ?thesis
  proof (relation "measure length")
    show "wf (measure length)" by simp
  qed (auto dest!: str nu)
qed

text \<open>
  The second pass reads the tokens with a stack of the arrays and objects that are
  open. A frame holds the elements or members read so far, last first, and for an
  object the name whose value is being read.
\<close>

datatype frame =
    ArrayFrame "json list"
  | ObjectFrame "(jsstring \<times> json) list"
  | MemberFrame "(jsstring \<times> json) list" jsstring

datatype expecting =
    Value | FirstElement | AfterElement | FirstName | Name | NameSeparator | AfterMember
  | Done json

text \<open>A value is complete: it goes into the innermost open frame, or is the result.\<close>

fun deliver :: "json \<Rightarrow> frame list \<Rightarrow> (expecting \<times> frame list) option" where
  "deliver v [] = Some (Done v, [])"
| "deliver v (ArrayFrame es # K) = Some (AfterElement, ArrayFrame (v # es) # K)"
| "deliver v (MemberFrame ms k # K) = Some (AfterMember, ObjectFrame ((k, v) # ms) # K)"
| "deliver v (ObjectFrame ms # K) = None"

fun begin_value :: "token \<Rightarrow> frame list \<Rightarrow> (expecting \<times> frame list) option" where
  "begin_value (TString s) K = deliver (JString s) K"
| "begin_value TNumber K = deliver JNumber K"
| "begin_value TTrue K = deliver (JBool True) K"
| "begin_value TFalse K = deliver (JBool False) K"
| "begin_value TNull K = deliver JNull K"
| "begin_value LBracket K = Some (FirstElement, ArrayFrame [] # K)"
| "begin_value LBrace K = Some (FirstName, ObjectFrame [] # K)"
| "begin_value _ K = None"

fun step :: "expecting \<times> frame list \<Rightarrow> token \<Rightarrow> (expecting \<times> frame list) option" where
  "step (Value, K) t = begin_value t K"
| "step (FirstElement, ArrayFrame es # K) RBracket = deliver (JArray (rev es)) K"
| "step (FirstElement, K) t = begin_value t K"
| "step (AfterElement, ArrayFrame es # K) Comma = Some (Value, ArrayFrame es # K)"
| "step (AfterElement, ArrayFrame es # K) RBracket = deliver (JArray (rev es)) K"
| "step (FirstName, ObjectFrame ms # K) RBrace = deliver (JObject (rev ms)) K"
| "step (FirstName, ObjectFrame ms # K) (TString k) = Some (NameSeparator, MemberFrame ms k # K)"
| "step (Name, ObjectFrame ms # K) (TString k) = Some (NameSeparator, MemberFrame ms k # K)"
| "step (NameSeparator, K) Colon = Some (Value, K)"
| "step (AfterMember, ObjectFrame ms # K) Comma = Some (Name, ObjectFrame ms # K)"
| "step (AfterMember, ObjectFrame ms # K) RBrace = deliver (JObject (rev ms)) K"
| "step _ _ = None"

fun steps :: "expecting \<times> frame list \<Rightarrow> token list \<Rightarrow> (expecting \<times> frame list) option" where
  "steps st [] = Some st"
| "steps st (t # ts) = (case step st t of None \<Rightarrow> None | Some st' \<Rightarrow> steps st' ts)"

datatype failure = SyntaxError | TypeError | InvalidSelector | NotATodo

definition JSON_parse :: "jsstring \<Rightarrow> failure + json" where
  "JSON_parse text =
     (case tokens text of
        None \<Rightarrow> Inl SyntaxError
      | Some ts \<Rightarrow>
          (case steps (Value, []) ts of
             Some (Done v, []) \<Rightarrow> Inr v
           | _ \<Rightarrow> Inl SyntaxError))"

section \<open>Dates\<close>

text \<open>
  A \<open>Date\<close> is represented by its time value, a whole number of milliseconds since the
  epoch, of magnitude at most 8.64e15. The invalid date, which no operation of the
  program creates from its own data, is not part of the data model.

  \<open>Date.prototype.toISOString\<close> writes \<^verbatim>\<open>YYYY-MM-DDTHH:mm:ss.sssZ\<close>, with the year as four
  digits, or as a sign and six digits outside 0 to 9999. \<open>DayFromYear\<close> is the day number
  of the first day of a year, as ECMAScript defines it.
\<close>

definition DayFromYear :: "int \<Rightarrow> int" where
  "DayFromYear y = 365 * (y - 1970) + (y - 1969) div 4 - (y - 1901) div 100 + (y - 1601) div 400"

definition YearFromDay :: "int \<Rightarrow> int" where
  "YearFromDay d =
     (let y0 = 1970 + (400 * d) div 146097
      in if d < DayFromYear y0 then y0 - 1
         else if DayFromYear (y0 + 1) \<le> d then y0 + 1
         else y0)"

definition InLeapYear :: "int \<Rightarrow> int" where
  "InLeapYear y = (if y mod 4 = 0 \<and> (y mod 100 \<noteq> 0 \<or> y mod 400 = 0) then 1 else 0)"

text \<open>The day within the year on which each month starts, and the day after the last.\<close>

definition month_starts :: "int \<Rightarrow> int list" where
  "month_starts L =
     [0, 31, 59 + L, 90 + L, 120 + L, 151 + L, 181 + L, 212 + L, 243 + L, 273 + L, 304 + L,
      334 + L, 365 + L]"

definition MonthFromDay :: "int \<Rightarrow> int \<Rightarrow> nat" where
  "MonthFromDay L doy = length (filter (\<lambda>s. s \<le> doy) (butlast (month_starts L)))"

fun pad :: "nat \<Rightarrow> nat \<Rightarrow> jsstring" where
  "pad 0 n = []"
| "pad (Suc w) n = of_nat (48 + n div 10 ^ w mod 10) # pad w n"

definition year_text :: "int \<Rightarrow> jsstring" where
  "year_text y =
     (if 0 \<le> y \<and> y \<le> 9999 then pad 4 (nat y)
      else (if y < 0 then 0x2D else 0x2B) # pad 6 (nat \<bar>y\<bar>))"

definition toISOString :: "int \<Rightarrow> jsstring" where
  "toISOString t =
     (let day = t div 86400000;
          ms = nat (t mod 86400000);
          y = YearFromDay day;
          doy = day - DayFromYear y;
          m = MonthFromDay (InLeapYear y) doy;
          dd = nat (doy - month_starts (InLeapYear y) ! (m - 1) + 1)
      in year_text y @ 0x2D # pad 2 m @ 0x2D # pad 2 dd @ 0x54 # pad 2 (ms div 3600000)
         @ 0x3A # pad 2 (ms div 60000 mod 60) @ 0x3A # pad 2 (ms div 1000 mod 60)
         @ 0x2E # pad 3 (ms mod 1000) @ [0x5A])"

text \<open>
  \<open>Date.parse\<close>, for the texts in the format that \<open>toISOString\<close> writes: the time value,
  or \<open>None\<close> for a text that is not in this format or names no instant (a month 13, a
  day 30 in February, a time value out of range). Hosts read more formats than this
  one; what they make of them is not modelled.
\<close>

fun read_digits :: "nat \<Rightarrow> nat \<Rightarrow> jsstring \<Rightarrow> (nat \<times> jsstring) option" where
  "read_digits 0 a s = Some (a, s)"
| "read_digits (Suc w) a [] = None"
| "read_digits (Suc w) a (c # cs) =
     (if isDigit c then read_digits w (10 * a + (unat c - 48)) cs else None)"

fun expect :: "16 word \<Rightarrow> jsstring \<Rightarrow> jsstring option" where
  "expect c [] = None"
| "expect c (d # r) = (if c = d then Some r else None)"

definition read_year :: "jsstring \<Rightarrow> (int \<times> jsstring) option" where
  "read_year s =
     (case s of
        [] \<Rightarrow> None
      | c # r \<Rightarrow>
          if c = 0x2B then map_option (\<lambda>(y, r'). (int y, r')) (read_digits 6 0 r)
          else if c = 0x2D then
            (case read_digits 6 0 r of
               None \<Rightarrow> None
             | Some (y, r') \<Rightarrow> if y = 0 then None else Some (- int y, r'))
          else map_option (\<lambda>(y, r'). (int y, r')) (read_digits 4 0 s))"

definition MakeTime :: "int \<Rightarrow> nat \<Rightarrow> nat \<Rightarrow> nat \<Rightarrow> nat \<Rightarrow> nat \<Rightarrow> nat \<Rightarrow> int option" where
  "MakeTime y m dd hh mi ss ms =
     (let L = InLeapYear y;
          t = (DayFromYear y + month_starts L ! (m - 1) + int dd - 1) * 86400000
              + int hh * 3600000 + int mi * 60000 + int ss * 1000 + int ms
      in if 1 \<le> m \<and> m \<le> 12 \<and> 1 \<le> dd
            \<and> int dd \<le> month_starts L ! m - month_starts L ! (m - 1)
            \<and> (hh < 24 \<or> hh = 24 \<and> mi = 0 \<and> ss = 0 \<and> ms = 0) \<and> mi < 60 \<and> ss < 60
            \<and> \<bar>t\<bar> \<le> 8640000000000000
         then Some t else None)"

definition Date_parse :: "jsstring \<Rightarrow> int option" where
  "Date_parse s =
     Option.bind (read_year s) (\<lambda>(y, s1).
     Option.bind (expect 0x2D s1) (\<lambda>s2.
     Option.bind (read_digits 2 0 s2) (\<lambda>(m, s3).
     Option.bind (expect 0x2D s3) (\<lambda>s4.
     Option.bind (read_digits 2 0 s4) (\<lambda>(dd, s5).
     Option.bind (expect 0x54 s5) (\<lambda>s6.
     Option.bind (read_digits 2 0 s6) (\<lambda>(hh, s7).
     Option.bind (expect 0x3A s7) (\<lambda>s8.
     Option.bind (read_digits 2 0 s8) (\<lambda>(mi, s9).
     Option.bind (expect 0x3A s9) (\<lambda>s10.
     Option.bind (read_digits 2 0 s10) (\<lambda>(ss, s11).
     Option.bind (expect 0x2E s11) (\<lambda>s12.
     Option.bind (read_digits 3 0 s12) (\<lambda>(ms, s13).
       if s13 = [0x5A] then MakeTime y m dd hh mi ss ms else None)))))))))))))"

section \<open>Data model\<close>

text \<open>
  The interface \<open>Todo\<close> of \<^verbatim>\<open>src/app.ts\<close>, and its extension by \<open>priority\<close> in the
  priority-enabled variant. \<open>createdAt\<close> is the time value of the \<open>Date\<close>.
\<close>

record todo =
  id' :: jsstring
  title :: jsstring
  completed :: bool
  createdAt :: int

datatype priority = low | medium | high

record ptodo = todo +
  priority :: priority

datatype FilterType = Filter_all | Filter_active | Filter_completed

subsection \<open>The application state\<close>

text \<open>
  The fields \<open>todos\<close> and \<open>currentFilter\<close> of the class \<open>TodoApp\<close>, the storage slot
  (\<open>None\<close> when \<open>getItem\<close> returns \<open>null\<close>), and what the program reads from and writes
  to the document:
  \<^item> \<open>todoInput_value\<close>, the value of the input element;
  \<^item> \<open>todoList_items\<close>, the records from which \<open>renderTodos\<close> last built the markup of
    the list; the markup itself and what the browser makes of it are not modelled;
  \<^item> \<open>todoCount_textContent\<close>, the text of the element that the field \<open>todoCount\<close> holds;
  \<^item> \<open>todoCount_parentElement\<close>, whether that element has a parent element;
  \<^item> \<open>countSpan_innerHTML\<close>, the markup inside the parent of the element that \<open>todoCount\<close>
    held when the page was loaded, where the page shows the count;
  \<^item> \<open>filterButtons_selected\<close>, the filter whose buttons carry the class that
    \<open>updateFilterButtons\<close> sets;
  \<^item> the \<open>display\<close> styles of the elements \<open>empty-state\<close>, \<open>footer\<close>, \<open>main-section\<close> and
    \<open>clear-completed\<close>.
  The page is not part of the sources. The identifiers of its elements are those the
  program looks up, and each of them is taken to be there.
\<close>

record 'm TodoApp =
  todos :: "'m todo_scheme list"
  currentFilter :: FilterType
  localStorage_todos :: "jsstring option"
  todoInput_value :: jsstring
  todoList_items :: "'m todo_scheme list"
  todoCount_textContent :: jsstring
  todoCount_parentElement :: bool
  countSpan_innerHTML :: jsstring
  filterButtons_selected :: FilterType
  emptyState_display :: jsstring
  footer_display :: jsstring
  mainSection_display :: jsstring
  clearCompleted_display :: jsstring

text \<open>
  What the surroundings supply to one call of \<open>addTodo\<close>: the clock read by
  \<open>Date.now()\<close> in \<open>generateId\<close>, the text of \<open>Math.random().toString(36)\<close>, and the
  clock read by \<open>new Date()\<close>.
\<close>

record env =
  Date_now :: int
  Math_random_toString36 :: jsstring
  new_Date :: int

text \<open>
  What \<open>document.querySelector\<close> answers to the selector \<^verbatim>\<open>[data-id="..."]\<close>: an element,
  \<open>null\<close>, or an exception when the text is no selector (an identifier with a quotation
  mark in it). The answer depends on how the browser has parsed the markup of the
  list, in which titles and identifiers stand unescaped; it is an input of the model.
\<close>

datatype queried = Element | Null | Invalid

section \<open>Persistence\<close>

text \<open>
  The text that \<open>JSON.stringify(this.todos)\<close> returns: the properties in the order in
  which \<open>addTodo\<close> creates them, the \<open>Date\<close> through \<open>toJSON\<close> as its ISO text, no white
  space. Properties beyond those of the interface, which an object loaded from a slot
  that another program wrote may carry, have no place in the record.
\<close>

definition member_text :: "string \<Rightarrow> jsstring \<Rightarrow> jsstring" where
  "member_text k v = QuoteJSONString (ascii k) @ 0x3A # v"

definition boolean_text :: "bool \<Rightarrow> jsstring" where
  "boolean_text b = (if b then ascii ''true'' else ascii ''false'')"

definition todo_members :: "'m todo_scheme \<Rightarrow> jsstring list" where
  "todo_members t =
     [member_text ''id'' (QuoteJSONString (id' t)),
      member_text ''title'' (QuoteJSONString (title t)),
      member_text ''completed'' (boolean_text (completed t)),
      member_text ''createdAt'' (QuoteJSONString (toISOString (createdAt t)))]"

definition todo_text :: "todo \<Rightarrow> jsstring" where
  "todo_text t = 0x7B # join_comma (todo_members t) @ [0x7D]"

definition priority_text :: "priority \<Rightarrow> jsstring" where
  "priority_text p =
     (case p of low \<Rightarrow> ascii ''low'' | medium \<Rightarrow> ascii ''medium'' | high \<Rightarrow> ascii ''high'')"

definition ptodo_text :: "ptodo \<Rightarrow> jsstring" where
  "ptodo_text t =
     0x7B # join_comma (todo_members t
              @ [member_text ''priority'' (QuoteJSONString (priority_text (priority t)))])
     @ [0x7D]"

definition JSON_stringify :: "todo list \<Rightarrow> jsstring" where
  "JSON_stringify ts = array_text (map todo_text ts)"

definition JSON_stringify_p :: "ptodo list \<Rightarrow> jsstring" where
  "JSON_stringify_p ts = array_text (map ptodo_text ts)"

text \<open>The write to the storage slot is taken to succeed.\<close>

definition saveToStorage :: "unit TodoApp \<Rightarrow> unit TodoApp" where
  "saveToStorage s = s\<lparr>localStorage_todos := Some (JSON_stringify (todos s))\<rparr>"

definition saveToStorage_p :: "unit ptodo_ext TodoApp \<Rightarrow> unit ptodo_ext TodoApp" where
  "saveToStorage_p s = s\<lparr>localStorage_todos := Some (JSON_stringify_p (todos s))\<rparr>"

text \<open>
  A property of a parsed object. When the text repeats a name, the last value counts.
\<close>

definition property :: "(jsstring \<times> json) list \<Rightarrow> string \<Rightarrow> json option" where
  "property ms k = map_of (rev ms) (ascii k)"

text \<open>
  \<open>new Date(v)\<close> for the value of the property \<open>createdAt\<close>: \<open>null\<close> and \<open>false\<close> convert
  to the number 0 and \<open>true\<close> to 1, a string is parsed. The result is \<open>None\<close> where the
  model ends: the property is missing (the invalid date), or it is a number, an array
  or an object, or a string that \<open>Date_parse\<close> does not read.
\<close>

definition new_Date_of :: "json option \<Rightarrow> int option" where
  "new_Date_of v =
     (case v of
        Some JNull \<Rightarrow> Some 0
      | Some (JBool b) \<Rightarrow> Some (if b then 1 else 0)
      | Some (JString str) \<Rightarrow> Date_parse str
      | _ \<Rightarrow> None)"

text \<open>
  The function that \<open>loadFromStorage\<close> maps over the parsed array:
  \<^verbatim>\<open>(todo: any) => ({...todo, createdAt: new Date(todo.createdAt)})\<close>. Reading
  \<open>createdAt\<close> of \<open>null\<close> raises \<open>TypeError\<close>. \<open>NotATodo\<close> is no exception: the source goes
  on with an object that is not a \<open>Todo\<close> (a property of the interface is missing or
  has another type, or \<open>new_Date_of\<close> gives \<open>None\<close>), and the typed model stops there.
\<close>

definition revive :: "json \<Rightarrow> failure + todo" where
  "revive j =
     (case j of
        JNull \<Rightarrow> Inl TypeError
      | JObject ms \<Rightarrow>
          (case (property ms ''id'', property ms ''title'', property ms ''completed'',
                 new_Date_of (property ms ''createdAt'')) of
             (Some (JString i), Some (JString ttl), Some (JBool c), Some d) \<Rightarrow>
               Inr \<lparr>id' = i, title = ttl, completed = c, createdAt = d\<rparr>
           | _ \<Rightarrow> Inl NotATodo)
      | _ \<Rightarrow> Inl NotATodo)"

definition priority_of_text :: "jsstring \<Rightarrow> priority option" where
  "priority_of_text str =
     (if str = ascii ''low'' then Some low
      else if str = ascii ''medium'' then Some medium
      else if str = ascii ''high'' then Some high
      else None)"

definition revive_p :: "json \<Rightarrow> failure + ptodo" where
  "revive_p j =
     (case j of
        JNull \<Rightarrow> Inl TypeError
      | JObject ms \<Rightarrow>
          (case (property ms ''id'', property ms ''title'', property ms ''completed'',
                 new_Date_of (property ms ''createdAt''), property ms ''priority'') of
             (Some (JString i), Some (JString ttl), Some (JBool c), Some d, Some (JString p)) \<Rightarrow>
               (case priority_of_text p of
                  Some pr \<Rightarrow> Inr \<lparr>id' = i, title = ttl, completed = c, createdAt = d, priority = pr\<rparr>
                | None \<Rightarrow> Inl NotATodo)
           | _ \<Rightarrow> Inl NotATodo)
      | _ \<Rightarrow> Inl NotATodo)"

text \<open>\<open>Array.prototype.map\<close> with a function that may fail: the first failure ends it.\<close>

fun map_array :: "('a \<Rightarrow> failure + 'b) \<Rightarrow> 'a list \<Rightarrow> failure + 'b list" where
  "map_array f [] = Inr []"
| "map_array f (x # xs) =
     (case f x of
        Inl e \<Rightarrow> Inl e
      | Inr y \<Rightarrow> (case map_array f xs of Inl e \<Rightarrow> Inl e | Inr ys \<Rightarrow> Inr (y # ys)))"

text \<open>
  \<open>loadFromStorage\<close>. Nothing in the program catches the \<open>SyntaxError\<close> of \<open>JSON.parse\<close>.
  A parsed value that is not an array has no method \<open>map\<close>, and the call raises
  \<open>TypeError\<close>.
\<close>

definition loadFromStorage :: "unit TodoApp \<Rightarrow> failure + unit TodoApp" where
  "loadFromStorage s =
     (case localStorage_todos s of
        None \<Rightarrow> Inr s
      | Some stored \<Rightarrow>
          if ToBoolean stored
          then (case JSON_parse stored of
                  Inl e \<Rightarrow> Inl e
                | Inr (JArray xs) \<Rightarrow>
                    (case map_array revive xs of
                       Inl e \<Rightarrow> Inl e
                     | Inr ts \<Rightarrow> Inr (s\<lparr>todos := ts\<rparr>))
                | Inr _ \<Rightarrow> Inl TypeError)
          else Inr s)"

definition loadFromStorage_p :: "unit ptodo_ext TodoApp \<Rightarrow> failure + unit ptodo_ext TodoApp" where
  "loadFromStorage_p s =
     (case localStorage_todos s of
        None \<Rightarrow> Inr s
      | Some stored \<Rightarrow>
          if ToBoolean stored
          then (case JSON_parse stored of
                  Inl e \<Rightarrow> Inl e
                | Inr (JArray xs) \<Rightarrow>
                    (case map_array revive_p xs of
                       Inl e \<Rightarrow> Inl e
                     | Inr ts \<Rightarrow> Inr (s\<lparr>todos := ts\<rparr>))
                | Inr _ \<Rightarrow> Inl TypeError)
          else Inr s)"

section \<open>Rendering\<close>

definition getFilteredTodos :: "'m TodoApp \<Rightarrow> 'm todo_scheme list" where
  "getFilteredTodos s =
     (case currentFilter s of
        Filter_active \<Rightarrow> filter (\<lambda>t. \<not> completed t) (todos s)
      | Filter_completed \<Rightarrow> filter (\<lambda>t. completed t) (todos s)
      | _ \<Rightarrow> todos s)"

definition renderTodos :: "'m TodoApp \<Rightarrow> 'm TodoApp" where
  "renderTodos s = s\<lparr>todoList_items := getFilteredTodos s\<rparr>"

text \<open>
  \<open>updateTodoCount\<close> of \<^verbatim>\<open>src/app.ts\<close>. \<open>activeTodos\<close> is its local constant. The
  assignment to \<open>innerHTML\<close> of the parent replaces the children of the parent, so the
  element that \<open>todoCount\<close> holds has no parent afterwards.
\<close>

definition activeTodos :: "'m TodoApp \<Rightarrow> nat" where
  "activeTodos s = length (filter (\<lambda>t. \<not> completed t) (todos s))"

definition updateTodoCount :: "'m TodoApp \<Rightarrow> 'm TodoApp" where
  "updateTodoCount s =
     (let s1 = s\<lparr>todoCount_textContent := toString10 (activeTodos s)\<rparr>
      in if todoCount_parentElement s1
         then (let itemText = (if activeTodos s = 1 then ascii ''item left'' else ascii ''items left'')
               in s1\<lparr>countSpan_innerHTML :=
                       ascii ''<strong>'' @ toString10 (activeTodos s) @ ascii ''</strong> ''
                       @ itemText,
                     todoCount_parentElement := False\<rparr>)
         else s1)"

text \<open>
  \<open>updateTodoCount\<close> of the priority-enabled variant, where \<open>todoCount\<close> holds the
  element of the count itself.
\<close>

definition updateTodoCount_p :: "'m TodoApp \<Rightarrow> 'm TodoApp" where
  "updateTodoCount_p s =
     s\<lparr>todoCount_textContent :=
         toString10 (activeTodos s) @ ascii '' item''
         @ (if activeTodos s \<noteq> 1 then ascii ''s'' else []) @ ascii '' left''\<rparr>"

definition updateFilterButtons :: "'m TodoApp \<Rightarrow> 'm TodoApp" where
  "updateFilterButtons s = s\<lparr>filterButtons_selected := currentFilter s\<rparr>"

text \<open>\<open>updateEmptyState\<close> of \<^verbatim>\<open>src/app.ts\<close>; \<open>hasCompleted\<close> is its local constant.\<close>

definition hasCompleted :: "'m TodoApp \<Rightarrow> bool" where
  "hasCompleted s \<longleftrightarrow> list_ex (\<lambda>t. completed t) (todos s)"

definition updateEmptyState :: "'m TodoApp \<Rightarrow> 'm TodoApp" where
  "updateEmptyState s =
     (let s1 = (if length (todos s) = 0
                then s\<lparr>emptyState_display := ascii ''block'', footer_display := ascii ''none'',
                       mainSection_display := ascii ''none''\<rparr>
                else s\<lparr>emptyState_display := ascii ''none'', footer_display := ascii ''flex'',
                       mainSection_display := ascii ''block''\<rparr>)
      in s1\<lparr>clearCompleted_display := (if hasCompleted s then ascii ''block'' else ascii ''none'')\<rparr>)"

definition updateEmptyState_p :: "'m TodoApp \<Rightarrow> 'm TodoApp" where
  "updateEmptyState_p s =
     (if length (getFilteredTodos s) = 0
      then s\<lparr>emptyState_display := ascii ''flex''\<rparr>
      else s\<lparr>emptyState_display := ascii ''none''\<rparr>)"

definition render :: "'m TodoApp \<Rightarrow> 'm TodoApp" where
  "render s = updateEmptyState (updateFilterButtons (updateTodoCount (renderTodos s)))"

definition render_p :: "'m TodoApp \<Rightarrow> 'm TodoApp" where
  "render_p s = updateEmptyState_p (updateFilterButtons (updateTodoCount_p (renderTodos s)))"

section \<open>Operations of \<^verbatim>\<open>src/app.ts\<close>\<close>

definition generateId :: "env \<Rightarrow> jsstring" where
  "generateId e = toString36 (Date_now e) @ drop 2 (Math_random_toString36 e)"

definition addTodo :: "jsstring \<Rightarrow> env \<Rightarrow> unit TodoApp \<Rightarrow> unit TodoApp" where
  "addTodo ttl e s =
     (let t = \<lparr>id' = generateId e, title = ttl, completed = False, createdAt = new_Date e\<rparr>
      in render (saveToStorage (s\<lparr>todos := t # todos s\<rparr>)))"

text \<open>
  The \<open>keypress\<close> listener of \<open>todoInput\<close>, the only caller of \<open>addTodo\<close>: this is how a
  title reaches the add operation.
\<close>

definition todoInput_keypress :: "jsstring \<Rightarrow> env \<Rightarrow> unit TodoApp \<Rightarrow> unit TodoApp" where
  "todoInput_keypress key e s =
     (if key = ascii ''Enter'' \<and> ToBoolean (trim (todoInput_value s))
      then (addTodo (trim (todoInput_value s)) e s)\<lparr>todoInput_value := []\<rparr>
      else s)"

text \<open>
  \<open>this.todos.find(t => t.id === id)\<close> returns the first object with the identifier, and
  the assignment to one of its fields changes that object in its place in the array.
  \<open>assign\<close> puts the changed object where \<open>find\<close> found it.
\<close>

fun assign :: "('a \<Rightarrow> bool) \<Rightarrow> 'a \<Rightarrow> 'a list \<Rightarrow> 'a list" where
  "assign P y [] = []"
| "assign P y (x # xs) = (if P x then y # xs else x # assign P y xs)"

definition toggleTodo :: "jsstring \<Rightarrow> unit TodoApp \<Rightarrow> unit TodoApp" where
  "toggleTodo i s =
     (case find (\<lambda>t. id' t = i) (todos s) of
        Some todo \<Rightarrow>
          render (saveToStorage
            (s\<lparr>todos := assign (\<lambda>t. id' t = i) (todo\<lparr>completed := \<not> completed todo\<rparr>) (todos s)\<rparr>))
      | None \<Rightarrow> s)"

definition deleteTodo :: "jsstring \<Rightarrow> unit TodoApp \<Rightarrow> unit TodoApp" where
  "deleteTodo i s = render (saveToStorage (s\<lparr>todos := filter (\<lambda>t. id' t \<noteq> i) (todos s)\<rparr>))"

definition editTodo :: "jsstring \<Rightarrow> jsstring \<Rightarrow> unit TodoApp \<Rightarrow> unit TodoApp" where
  "editTodo i newTitle s =
     (case find (\<lambda>t. id' t = i) (todos s) of
        Some todo \<Rightarrow>
          if ToBoolean (trim newTitle)
          then render (saveToStorage
            (s\<lparr>todos := assign (\<lambda>t. id' t = i) (todo\<lparr>title := trim newTitle\<rparr>) (todos s)\<rparr>))
          else s
      | None \<Rightarrow> s)"

definition setFilter :: "FilterType \<Rightarrow> unit TodoApp \<Rightarrow> unit TodoApp" where
  "setFilter f s = render (updateFilterButtons (s\<lparr>currentFilter := f\<rparr>))"

definition clearCompletedTodos :: "unit TodoApp \<Rightarrow> unit TodoApp" where
  "clearCompletedTodos s =
     render (saveToStorage (s\<lparr>todos := filter (\<lambda>t. \<not> completed t) (todos s)\<rparr>))"

text \<open>
  \<open>finishEdit\<close>, with the answer of \<open>document.querySelector\<close>. An empty trimmed title
  deletes the todo. \<open>startEdit\<close> and \<open>cancelEdit\<close> only change the class of the element.
\<close>

definition finishEdit :: "queried \<Rightarrow> jsstring \<Rightarrow> jsstring \<Rightarrow> unit TodoApp \<Rightarrow> failure + unit TodoApp" where
  "finishEdit todoItem i newTitle s =
     (case todoItem of
        Invalid \<Rightarrow> Inl InvalidSelector
      | Null \<Rightarrow> Inr s
      | Element \<Rightarrow>
          if ToBoolean (trim newTitle) then Inr (editTodo i newTitle s)
          else Inr (deleteTodo i s))"

text \<open>
  The object when the constructor runs: the field initialisers, in the document and
  with the storage slot of the given state. \<open>init\<close> loads and renders; an exception of
  \<open>loadFromStorage\<close> leaves the constructor.
\<close>

definition new_TodoApp :: "'m TodoApp \<Rightarrow> 'm TodoApp" where
  "new_TodoApp d = d\<lparr>todos := [], currentFilter := Filter_all\<rparr>"

definition init :: "unit TodoApp \<Rightarrow> failure + unit TodoApp" where
  "init s = (case loadFromStorage s of Inl e \<Rightarrow> Inl e | Inr s' \<Rightarrow> Inr (render s'))"

section \<open>Operations of the priority-enabled variant\<close>

definition addTodo_p :: "jsstring \<Rightarrow> env \<Rightarrow> unit ptodo_ext TodoApp \<Rightarrow> unit ptodo_ext TodoApp" where
  "addTodo_p ttl e s =
     (let t = \<lparr>id' = generateId e, title = ttl, completed = False, createdAt = new_Date e,
                priority = medium\<rparr>
      in render_p (saveToStorage_p (s\<lparr>todos := t # todos s\<rparr>)))"

definition todoInput_keypress_p ::
  "jsstring \<Rightarrow> env \<Rightarrow> unit ptodo_ext TodoApp \<Rightarrow> unit ptodo_ext TodoApp" where
  "todoInput_keypress_p key e s =
     (if key = ascii ''Enter'' \<and> ToBoolean (trim (todoInput_value s))
      then (addTodo_p (trim (todoInput_value s)) e s)\<lparr>todoInput_value := []\<rparr>
      else s)"

definition toggleTodo_p :: "jsstring \<Rightarrow> unit ptodo_ext TodoApp \<Rightarrow> unit ptodo_ext TodoApp" where
  "toggleTodo_p i s =
     (case find (\<lambda>t. id' t = i) (todos s) of
        Some todo \<Rightarrow>
          render_p (saveToStorage_p
            (s\<lparr>todos := assign (\<lambda>t. id' t = i) (todo\<lparr>completed := \<not> completed todo\<rparr>) (todos s)\<rparr>))
      | None \<Rightarrow> s)"


definition editTodo_p ::
  "jsstring \<Rightarrow> jsstring \<Rightarrow> unit ptodo_ext TodoApp \<Rightarrow> unit ptodo_ext TodoApp" where
  "editTodo_p i newTitle s =
     (case find (\<lambda>t. id' t = i) (todos s) of
        Some todo \<Rightarrow>
          if ToBoolean (trim newTitle)
          then render_p (saveToStorage_p
            (s\<lparr>todos := assign (\<lambda>t. id' t = i) (todo\<lparr>title := trim newTitle\<rparr>) (todos s)\<rparr>))
          else s
      | None \<Rightarrow> s)"

definition setFilter_p :: "FilterType \<Rightarrow> unit ptodo_ext TodoApp \<Rightarrow> unit ptodo_ext TodoApp" where
  "setFilter_p f s = render_p (updateFilterButtons (s\<lparr>currentFilter := f\<rparr>))"

definition clearCompletedTodos_p :: "unit ptodo_ext TodoApp \<Rightarrow> unit ptodo_ext TodoApp" where
  "clearCompletedTodos_p s =
     render_p (saveToStorage_p (s\<lparr>todos := filter (\<lambda>t. \<not> completed t) (todos s)\<rparr>))"

text \<open>\<open>Array.prototype.indexOf\<close>: the first index of the value, or \<open>-1\<close>.\<close>

fun indexOf :: "'a list \<Rightarrow> 'a \<Rightarrow> int" where
  "indexOf [] v = - 1"
| "indexOf (x # xs) v =
     (if x = v then 0 else (let r = indexOf xs v in if r < 0 then - 1 else r + 1))"

definition priorities :: "priority list" where
  "priorities = [low, medium, high]"

definition cyclePriority :: "jsstring \<Rightarrow> unit ptodo_ext TodoApp \<Rightarrow> unit ptodo_ext TodoApp" where
  "cyclePriority i s =
     (case find (\<lambda>t. id' t = i) (todos s) of
        Some todo \<Rightarrow>
          (let currentIndex = indexOf priorities (priority todo);
               nextIndex = (currentIndex + 1) mod int (length priorities)
           in render_p (saveToStorage_p
                (s\<lparr>todos := assign (\<lambda>t. id' t = i)
                     (todo\<lparr>priority := priorities ! nat nextIndex\<rparr>) (todos s)\<rparr>)))
      | None \<Rightarrow> s)"

text \<open>\<open>finishEdit\<close> of this variant has no branch for an empty trimmed title.\<close>

definition finishEdit_p ::
  "queried \<Rightarrow> jsstring \<Rightarrow> jsstring \<Rightarrow> unit ptodo_ext TodoApp \<Rightarrow> failure + unit ptodo_ext TodoApp" where
  "finishEdit_p todoItem i newTitle s =
     (case todoItem of
        Invalid \<Rightarrow> Inl InvalidSelector
      | Null \<Rightarrow> Inr s
      | Element \<Rightarrow>
          if ToBoolean (trim newTitle) then Inr (editTodo_p i newTitle s)
          else Inr s)"

definition init_p :: "unit ptodo_ext TodoApp \<Rightarrow> failure + unit ptodo_ext TodoApp" where
  "init_p s = (case loadFromStorage_p s of Inl e \<Rightarrow> Inl e | Inr s' \<Rightarrow> Inr (render_p s'))"

section \<open>Notions used in the statements\<close>

text \<open>The filter predicate, in the words of the specification.\<close>

definition satisfies :: "FilterType \<Rightarrow> 'm todo_scheme \<Rightarrow> bool" where
  "satisfies f t =
     (case f of
        Filter_active \<Rightarrow> completed t = False
      | Filter_completed \<Rightarrow> completed t = True
      | Filter_all \<Rightarrow> True)"

text \<open>A sequence of calls of \<open>addTodo\<close>, and the record that one call creates.\<close>

definition addTodos :: "(jsstring \<times> env) list \<Rightarrow> unit TodoApp \<Rightarrow> unit TodoApp" where
  "addTodos calls s = fold (\<lambda>(ttl, e). addTodo ttl e) calls s"

definition created :: "jsstring \<times> env \<Rightarrow> todo" where
  "created c = \<lparr>id' = generateId (snd c), title = fst c, completed = False,
                createdAt = new_Date (snd c)\<rparr>"

text \<open>The cycle low, medium, high, low.\<close>

definition next_priority :: "priority \<Rightarrow> priority" where
  "next_priority p = (case p of low \<Rightarrow> medium | medium \<Rightarrow> high | high \<Rightarrow> low)"

subsection \<open>Concrete data\<close>

text \<open>A page before the script runs, with nothing stored.\<close>

definition page0 :: "'m TodoApp" where
  "page0 =
     \<lparr>todos = [], currentFilter = Filter_all, localStorage_todos = None, todoInput_value = [],
      todoList_items = [], todoCount_textContent = ascii ''0'', todoCount_parentElement = True,
      countSpan_innerHTML = ascii ''<strong id=todo-count-number>0</strong> items left'',
      filterButtons_selected = Filter_all, emptyState_display = [], footer_display = [],
      mainSection_display = [], clearCompleted_display = []\<rparr>"

definition env1 :: env where
  "env1 = \<lparr>Date_now = 1700000000000, Math_random_toString36 = ascii ''0.i'',
           new_Date = 1700000000000\<rparr>"

definition env2 :: env where
  "env2 = \<lparr>Date_now = 1700000000001, Math_random_toString36 = ascii ''0.7k'',
           new_Date = 1700000000002\<rparr>"

definition milk :: todo where
  "milk = \<lparr>id' = ascii ''m1'', title = ascii ''buy milk'', completed = False,
           createdAt = 1700000000000\<rparr>"

definition bread :: todo where
  "bread = \<lparr>id' = ascii ''b2'', title = ascii ''bake bread'', completed = True,
            createdAt = 1709164800000\<rparr>"

definition tea :: ptodo where
  "tea = \<lparr>id' = ascii ''t3'', title = ascii ''make tea'', completed = False,
          createdAt = 1700000000000, priority = medium\<rparr>"

definition app2 :: "unit TodoApp" where
  "app2 = page0\<lparr>todos := [milk, bread]\<rparr>"

definition app_p :: "unit ptodo_ext TodoApp" where
  "app_p = page0\<lparr>todos := [tea]\<rparr>"

definition blank_app :: "unit TodoApp" where
  "blank_app = page0\<lparr>todoInput_value := ascii ''   ''\<rparr>"

definition blank_app_p :: "unit ptodo_ext TodoApp" where
  "blank_app_p = page0\<lparr>todoInput_value := ascii ''   ''\<rparr>"

section \<open>Properties\<close>

subsection \<open>Auxiliary facts\<close>

lemma todos_render [simp]: "todos (render s) = todos s"
  by (simp add: render_def renderTodos_def updateTodoCount_def updateFilterButtons_def
      updateEmptyState_def Let_def)

lemma todos_render_p [simp]: "todos (render_p s) = todos s"
  by (simp add: render_p_def renderTodos_def updateTodoCount_p_def updateFilterButtons_def
      updateEmptyState_p_def)

lemma currentFilter_render [simp]: "currentFilter (render s) = currentFilter s"
  by (simp add: render_def renderTodos_def updateTodoCount_def updateFilterButtons_def
      updateEmptyState_def Let_def)

lemma currentFilter_render_p [simp]: "currentFilter (render_p s) = currentFilter s"
  by (simp add: render_p_def renderTodos_def updateTodoCount_p_def updateFilterButtons_def
      updateEmptyState_p_def)

lemma todos_saveToStorage [simp]: "todos (saveToStorage s) = todos s"
  by (simp add: saveToStorage_def)

lemma todos_saveToStorage_p [simp]: "todos (saveToStorage_p s) = todos s"
  by (simp add: saveToStorage_p_def)

lemma todos_updateFilterButtons [simp]: "todos (updateFilterButtons s) = todos s"
  by (simp add: updateFilterButtons_def)

lemma currentFilter_updateFilterButtons [simp]:
  "currentFilter (updateFilterButtons s) = currentFilter s"
  by (simp add: updateFilterButtons_def)

lemma assign_absent: "find P xs = None \<Longrightarrow> assign P y xs = xs"
  by (induction xs) (auto split: if_splits)

lemma find_holds: "find P xs = Some x \<Longrightarrow> P x"
  by (induction xs) (auto split: if_splits)

lemma find_assign: "find P xs = Some x \<Longrightarrow> P y \<Longrightarrow> find P (assign P y xs) = Some y"
  by (induction xs) (auto split: if_splits)

lemma assign_back: "find P xs = Some x \<Longrightarrow> P y \<Longrightarrow> assign P x (assign P y xs) = xs"
  by (induction xs) (auto split: if_splits)

lemma assign_same: "find P xs = Some x \<Longrightarrow> assign P x xs = xs"
  by (induction xs) (auto split: if_splits)

lemma assign_assign: "P y \<Longrightarrow> assign P z (assign P y xs) = assign P z xs"
  by (induction xs) auto



lemma toggled_twice:
  "assign (\<lambda>t. id' t = i) (u\<lparr>completed := \<not> completed u\<rparr>)
     (assign (\<lambda>t. id' t = i) (t\<lparr>completed := \<not> completed t\<rparr>) xs) = xs"
  if "find (\<lambda>t. id' t = i) xs = Some t" "u = t\<lparr>completed := \<not> completed t\<rparr>"
proof -
  from that(1) have "id' t = i" by (auto dest: find_holds)
  with that show ?thesis by (simp add: assign_back)
qed

lemma getFilteredTodos_satisfies:
  "getFilteredTodos s = filter (satisfies (currentFilter s)) (todos s)"
  by (cases "currentFilter s") (simp_all add: getFilteredTodos_def satisfies_def [abs_def])

lemma todos_addTodo: "todos (addTodo ttl e s) = created (ttl, e) # todos s"
  by (simp add: addTodo_def created_def)

lemma todos_addTodos: "todos (addTodos calls s) = rev (map created calls) @ todos s"
  unfolding addTodos_def
  by (induction calls arbitrary: s) (auto simp: todos_addTodo)

lemma next_index:
  "priorities ! nat ((indexOf priorities p + 1) mod int (length priorities)) = next_priority p"
  by (cases p) (simp_all add: priorities_def next_priority_def)

lemma next_priority_thrice: "next_priority (next_priority (next_priority p)) = p"
  by (cases p) (simp_all add: next_priority_def)

lemma todos_cyclePriority:
  "find (\<lambda>t. id' t = i) (todos s) = Some t \<Longrightarrow>
   todos (cyclePriority i s)
     = assign (\<lambda>t. id' t = i) (t\<lparr>priority := next_priority (priority t)\<rparr>) (todos s)"
  by (simp add: cyclePriority_def Let_def next_index)

lemma todos_toggleTodo:
  "todos (toggleTodo i s) =
     (case find (\<lambda>t. id' t = i) (todos s) of
        Some t \<Rightarrow> assign (\<lambda>t. id' t = i) (t\<lparr>completed := \<not> completed t\<rparr>) (todos s)
      | None \<Rightarrow> todos s)"
  by (simp add: toggleTodo_def split: option.splits)

lemma todos_toggleTodo_p:
  "todos (toggleTodo_p i s) =
     (case find (\<lambda>t. id' t = i) (todos s) of
        Some t \<Rightarrow> assign (\<lambda>t. id' t = i) (t\<lparr>completed := \<not> completed t\<rparr>) (todos s)
      | None \<Rightarrow> todos s)"
  by (simp add: toggleTodo_p_def split: option.splits)

lemma toggle_list_twice:
  "(case find (\<lambda>t. id' t = i)
           (case find (\<lambda>t. id' t = i) xs of
              Some t \<Rightarrow> assign (\<lambda>t. id' t = i) (t\<lparr>completed := \<not> completed t\<rparr>) xs
            | None \<Rightarrow> xs) of
      Some u \<Rightarrow> assign (\<lambda>t. id' t = i) (u\<lparr>completed := \<not> completed u\<rparr>)
                 (case find (\<lambda>t. id' t = i) xs of
                    Some t \<Rightarrow> assign (\<lambda>t. id' t = i) (t\<lparr>completed := \<not> completed t\<rparr>) xs
                  | None \<Rightarrow> xs)
    | None \<Rightarrow> (case find (\<lambda>t. id' t = i) xs of
                 Some t \<Rightarrow> assign (\<lambda>t. id' t = i) (t\<lparr>completed := \<not> completed t\<rparr>) xs
               | None \<Rightarrow> xs)) = xs"
proof (cases "find (\<lambda>t. id' t = i) xs")
  case None
  then show ?thesis by simp
next
  case (Some t)
  then have "id' t = i" by (auto dest: find_holds)
  with Some show ?thesis by (simp add: find_assign assign_back)
qed

subsection \<open>The filtered view\<close>

text \<open>
  C4. For every collection and every active filter, \<open>getFilteredTodos\<close> returns exactly
  the records that satisfy the filter predicate, in the order of the collection: under
  \<open>active\<close> the records with \<open>completed = false\<close>, under \<open>completed\<close> those with
  \<open>completed = true\<close>, under \<open>all\<close> every record.
\<close>

theorem filteredView_exact:
  "getFilteredTodos s = filter (satisfies (currentFilter s)) (todos s)
   \<and> getFilteredTodos (s\<lparr>currentFilter := Filter_active\<rparr>)
       = filter (\<lambda>t. completed t = False) (todos s)
   \<and> getFilteredTodos (s\<lparr>currentFilter := Filter_completed\<rparr>)
       = filter (\<lambda>t. completed t = True) (todos s)
   \<and> getFilteredTodos (s\<lparr>currentFilter := Filter_all\<rparr>) = todos s"
  by (simp add: getFilteredTodos_satisfies) (simp add: satisfies_def [abs_def])

subsection \<open>Adding\<close>

text \<open>
  C1. For every title whose trimmed form is empty (such as the empty string or three
  spaces), the add operation is a no-op. A title reaches \<open>addTodo\<close> only through the
  \<open>keypress\<close> listener of the input, and when the trimmed value of the input is empty
  the listener returns the state as it was, whatever the key, in both variants: the
  collection is the same and no record is created.
\<close>

theorem keypress_blank_noop:
  assumes "trim (todoInput_value s) = []" and "trim (todoInput_value sp) = []"
  shows "todoInput_keypress key e s = s \<and> todoInput_keypress_p key e sp = sp"
  using assms by (simp add: todoInput_keypress_def todoInput_keypress_p_def ToBoolean_def)

theorem keypress_blank_noop_witness:
  "trim (todoInput_value blank_app) = [] \<and> trim (todoInput_value blank_app_p) = []
   \<and> todoInput_keypress (ascii ''Enter'') env1 blank_app = blank_app
   \<and> todoInput_keypress_p (ascii ''Enter'') env1 blank_app_p = blank_app_p"
proof -
  have a: "trim (todoInput_value blank_app) = []"
    by (simp add: blank_app_def page0_def trim_def isWhiteSpace_def ascii_def)
  have b: "trim (todoInput_value blank_app_p) = []"
    by (simp add: blank_app_p_def page0_def trim_def isWhiteSpace_def ascii_def)
  show ?thesis
    using keypress_blank_noop [OF a b] a b by simp
qed

text \<open>
  C5. For every sequence of \<open>n\<close> calls of \<open>addTodo\<close>, from a collection of any size
  \<open>k\<close>, the collection has size \<open>k + n\<close> afterwards, the new records stand before the old
  ones, newest first, and after at least one call the record added last is the first
  element of the view under the filter \<open>all\<close>. The titles need not be non-empty for this.
\<close>

theorem add_sequence:
  "length (todos (addTodos calls s)) = length (todos s) + length calls
   \<and> todos (addTodos calls s) = rev (map created calls) @ todos s
   \<and> (calls \<noteq> [] \<longrightarrow>
        hd (getFilteredTodos (setFilter Filter_all (addTodos calls s))) = created (last calls))"
proof -
  have v: "getFilteredTodos (setFilter Filter_all (addTodos calls s)) = todos (addTodos calls s)"
    by (simp add: getFilteredTodos_def setFilter_def)
  have h: "calls \<noteq> [] \<Longrightarrow> hd (rev (map created calls) @ todos s) = created (last calls)"
    by (simp add: hd_append hd_rev last_map)
  show ?thesis
    using h by (simp add: v todos_addTodos)
qed

theorem add_sequence_witness:
  "[(ascii ''a'', env1), (ascii ''b'', env2)] \<noteq> []
   \<and> length (todos (addTodos [(ascii ''a'', env1), (ascii ''b'', env2)] app2)) = 4
   \<and> map title (todos (addTodos [(ascii ''a'', env1), (ascii ''b'', env2)] app2))
       = [ascii ''b'', ascii ''a'', ascii ''buy milk'', ascii ''bake bread'']
   \<and> title (hd (getFilteredTodos (setFilter Filter_all
        (addTodos [(ascii ''a'', env1), (ascii ''b'', env2)] app2)))) = ascii ''b''"
  using add_sequence [of "[(ascii ''a'', env1), (ascii ''b'', env2)]" app2]
  by (simp add: created_def app2_def milk_def bread_def)

subsection \<open>Identifiers that are not in the collection\<close>



subsection \<open>Toggling and clearing\<close>

text \<open>
  C8. Applying \<open>toggleTodo\<close> twice with the same identifier restores the collection; for
  the identifier of a record in the collection the first call negates \<open>completed\<close> of
  that record and the second restores it. After \<open>clearCompletedTodos\<close>, \<open>hasCompleted\<close>
  is false. Both hold in both variants.
\<close>

theorem toggle_twice_clear:
  "todos (toggleTodo i (toggleTodo i s)) = todos s
   \<and> (find (\<lambda>t. id' t = i) (todos s) = Some t \<longrightarrow>
        find (\<lambda>t. id' t = i) (todos (toggleTodo i s)) = Some (t\<lparr>completed := \<not> completed t\<rparr>)
        \<and> find (\<lambda>t. id' t = i) (todos (toggleTodo i (toggleTodo i s))) = Some t)
   \<and> \<not> hasCompleted (clearCompletedTodos s)
   \<and> todos (toggleTodo_p j (toggleTodo_p j sp)) = todos sp
   \<and> (find (\<lambda>t. id' t = j) (todos sp) = Some tp \<longrightarrow>
        find (\<lambda>t. id' t = j) (todos (toggleTodo_p j sp)) = Some (tp\<lparr>completed := \<not> completed tp\<rparr>)
        \<and> find (\<lambda>t. id' t = j) (todos (toggleTodo_p j (toggleTodo_p j sp))) = Some tp)
   \<and> \<not> hasCompleted (clearCompletedTodos_p sp)"
proof -
  have twice: "todos (toggleTodo i (toggleTodo i s)) = todos s"
    by (simp only: todos_toggleTodo toggle_list_twice)
  have twice_p: "todos (toggleTodo_p j (toggleTodo_p j sp)) = todos sp"
    by (simp only: todos_toggleTodo_p toggle_list_twice)
  have once: "find (\<lambda>t. id' t = i) (todos (toggleTodo i s)) = Some (t\<lparr>completed := \<not> completed t\<rparr>)"
    if "find (\<lambda>t. id' t = i) (todos s) = Some t"
  proof -
    from that have "id' t = i" by (auto dest: find_holds)
    with that show ?thesis by (simp add: todos_toggleTodo find_assign)
  qed
  have once_p:
    "find (\<lambda>t. id' t = j) (todos (toggleTodo_p j sp)) = Some (tp\<lparr>completed := \<not> completed tp\<rparr>)"
    if "find (\<lambda>t. id' t = j) (todos sp) = Some tp"
  proof -
    from that have "id' tp = j" by (auto dest: find_holds)
    with that show ?thesis by (simp add: todos_toggleTodo_p find_assign)
  qed
  have clear: "\<not> hasCompleted (clearCompletedTodos s)"
    by (simp add: hasCompleted_def clearCompletedTodos_def list_ex_iff)
  have clear_p: "\<not> hasCompleted (clearCompletedTodos_p sp)"
    by (simp add: hasCompleted_def clearCompletedTodos_p_def list_ex_iff)
  show ?thesis using twice once clear twice_p once_p clear_p by simp
qed

theorem toggle_twice_clear_witness:
  "find (\<lambda>t. id' t = ascii ''b2'') (todos app2) = Some bread
   \<and> find (\<lambda>t. id' t = ascii ''b2'') (todos (toggleTodo (ascii ''b2'') app2))
       = Some (bread\<lparr>completed := False\<rparr>)
   \<and> find (\<lambda>t. id' t = ascii ''b2'')
        (todos (toggleTodo (ascii ''b2'') (toggleTodo (ascii ''b2'') app2))) = Some bread
   \<and> hasCompleted app2 \<and> \<not> hasCompleted (clearCompletedTodos app2)
   \<and> find (\<lambda>t. id' t = ascii ''t3'') (todos app_p) = Some tea
   \<and> find (\<lambda>t. id' t = ascii ''t3'') (todos (toggleTodo_p (ascii ''t3'') app_p))
       = Some (tea\<lparr>completed := True\<rparr>)
   \<and> find (\<lambda>t. id' t = ascii ''t3'')
        (todos (toggleTodo_p (ascii ''t3'') (toggleTodo_p (ascii ''t3'') app_p))) = Some tea"
proof -
  have f: "find (\<lambda>t. id' t = ascii ''b2'') (todos app2) = Some bread"
    by (simp add: app2_def page0_def milk_def bread_def ascii_def)
  have g: "find (\<lambda>t. id' t = ascii ''t3'') (todos app_p) = Some tea"
    by (simp add: app_p_def page0_def tea_def ascii_def)
  have c: "completed bread" "hasCompleted app2" "\<not> completed tea"
    by (simp_all add: hasCompleted_def app2_def page0_def milk_def bread_def tea_def)
  show ?thesis
    using toggle_twice_clear [of "ascii ''b2''" app2 bread "ascii ''t3''" app_p tea] f g c
    by simp
qed

subsection \<open>Priorities\<close>

text \<open>
  C9. In the priority-enabled variant, for the identifier of a record in the
  collection, \<open>cyclePriority\<close> moves the priority of that record one step along low,
  medium, high, low and changes nothing else, and three calls with the same identifier
  restore the collection.
\<close>

theorem cyclePriority_cycle:
  assumes "find (\<lambda>t. id' t = i) (todos s) = Some t"
  shows "todos (cyclePriority i s)
           = assign (\<lambda>t. id' t = i) (t\<lparr>priority := next_priority (priority t)\<rparr>) (todos s)
         \<and> find (\<lambda>t. id' t = i) (todos (cyclePriority i s))
           = Some (t\<lparr>priority := next_priority (priority t)\<rparr>)
         \<and> todos (cyclePriority i (cyclePriority i (cyclePriority i s))) = todos s"
proof -
  let ?P = "\<lambda>t. id' t = i"
  let ?t1 = "t\<lparr>priority := next_priority (priority t)\<rparr>"
  let ?t2 = "?t1\<lparr>priority := next_priority (priority ?t1)\<rparr>"
  let ?t3 = "?t2\<lparr>priority := next_priority (priority ?t2)\<rparr>"
  have i: "id' t = i" using assms by (auto dest: find_holds)
  have s1: "todos (cyclePriority i s) = assign ?P ?t1 (todos s)"
    using assms by (rule todos_cyclePriority)
  have f1: "find ?P (todos (cyclePriority i s)) = Some ?t1"
    using assms i by (simp add: s1 find_assign)
  have s2: "todos (cyclePriority i (cyclePriority i s)) = assign ?P ?t2 (todos s)"
    using todos_cyclePriority [OF f1] i by (simp add: s1 assign_assign)
  have f2: "find ?P (todos (cyclePriority i (cyclePriority i s))) = Some ?t2"
    using assms i by (simp add: s2 find_assign)
  have s3: "todos (cyclePriority i (cyclePriority i (cyclePriority i s))) = assign ?P ?t3 (todos s)"
    using todos_cyclePriority [OF f2] i by (simp add: s2 assign_assign)
  have "?t3 = t" by (simp add: next_priority_thrice)
  moreover have "assign ?P t (todos s) = todos s"
    using assms by (rule assign_same)
  ultimately show ?thesis using s1 f1 s3 by simp
qed

theorem cyclePriority_cycle_witness:
  "find (\<lambda>t. id' t = ascii ''t3'') (todos app_p) = Some tea
   \<and> todos (cyclePriority (ascii ''t3'') app_p) = [tea\<lparr>priority := high\<rparr>]
   \<and> todos (cyclePriority (ascii ''t3'') (cyclePriority (ascii ''t3'')
        (cyclePriority (ascii ''t3'') app_p))) = [tea]"
proof -
  have f: "find (\<lambda>t. id' t = ascii ''t3'') (todos app_p) = Some tea"
    by (simp add: app_p_def page0_def tea_def ascii_def)
  have t: "todos app_p = [tea]" "id' tea = ascii ''t3''" "priority tea = medium"
    by (simp_all add: app_p_def page0_def tea_def)
  show ?thesis
    using cyclePriority_cycle [OF f] f t by (simp add: next_priority_def)
qed

subsection \<open>The count and the button on the page\<close>

lemma queries_agree_with_view:
  "activeTodos s = length (getFilteredTodos (s\<lparr>currentFilter := Filter_active\<rparr>))
   \<and> hasCompleted s = (getFilteredTodos (s\<lparr>currentFilter := Filter_completed\<rparr>) \<noteq> [])
   \<and> activeTodos (s\<lparr>currentFilter := f\<rparr>) = activeTodos s
   \<and> hasCompleted (s\<lparr>currentFilter := f\<rparr>) = hasCompleted s"
  by (simp add: activeTodos_def hasCompleted_def getFilteredTodos_def list_ex_iff
      filter_empty_conv)

lemma clearCompleted_display_render:
  "clearCompleted_display (render s) = (if hasCompleted s then ascii ''block'' else ascii ''none'')"
  by (simp add: render_def renderTodos_def updateTodoCount_def updateFilterButtons_def
      updateEmptyState_def hasCompleted_def Let_def)

lemma todoCount_textContent_render:
  "todoCount_textContent (render s) = toString10 (activeTodos s)"
  by (simp add: render_def renderTodos_def updateTodoCount_def updateFilterButtons_def
      updateEmptyState_def activeTodos_def Let_def)

lemma count_detached_by_render: "\<not> todoCount_parentElement (render s)"
  by (simp add: render_def renderTodos_def updateTodoCount_def updateFilterButtons_def
      updateEmptyState_def Let_def)

lemma count_stale_once_detached:
  "\<not> todoCount_parentElement s \<Longrightarrow> countSpan_innerHTML (render s) = countSpan_innerHTML s"
  by (simp add: render_def renderTodos_def updateTodoCount_def updateFilterButtons_def
      updateEmptyState_def Let_def)

lemma count_shown_by_render_p:
  "todoCount_textContent (render_p s) =
     toString10 (activeTodos s) @ ascii '' item''
     @ (if activeTodos s \<noteq> 1 then ascii ''s'' else []) @ ascii '' left''"
  by (simp add: render_p_def renderTodos_def updateTodoCount_p_def updateFilterButtons_def
      updateEmptyState_p_def activeTodos_def)

lemma count_written_by_first_render:
  "todoCount_parentElement s \<Longrightarrow>
   countSpan_innerHTML (render s) =
     ascii ''<strong>'' @ toString10 (activeTodos s) @ ascii ''</strong> ''
     @ (if activeTodos s = 1 then ascii ''item left'' else ascii ''items left'')"
  by (simp add: render_def renderTodos_def updateTodoCount_def updateFilterButtons_def
      updateEmptyState_def activeTodos_def Let_def)

lemma countSpan_keypress:
  "\<not> todoCount_parentElement s \<Longrightarrow>
   countSpan_innerHTML (todoInput_keypress key e s) = countSpan_innerHTML s"
  by (simp add: todoInput_keypress_def addTodo_def count_stale_once_detached saveToStorage_def
      Let_def)

lemma todos_keypress:
  "todos (todoInput_keypress key e s) =
     (if key = ascii ''Enter'' \<and> trim (todoInput_value s) \<noteq> []
      then created (trim (todoInput_value s), e) # todos s else todos s)"
  by (simp add: todoInput_keypress_def todos_addTodo ToBoolean_def)

text \<open>
  C10, where the code departs from it. \<open>hasCompleted\<close> agrees with the view under the
  filter \<open>completed\<close>, and the count that \<open>updateTodoCount\<close> computes agrees with the view
  under \<open>active\<close>. But in \<^verbatim>\<open>src/app.ts\<close> the count reaches the page only in the first
  \<open>render\<close>, which replaces the markup around the element it writes to: on the page of
  \<open>page0\<close> with nothing stored, after the constructor and the entry of one title, one
  record is active and the page still shows the count 0.
\<close>

theorem count_on_page_stale:
  "init (new_TodoApp page0) = Inr (render (new_TodoApp page0))
   \<and> countSpan_innerHTML (render (new_TodoApp page0 :: unit TodoApp))
       = ascii ''<strong>0</strong> items left''
   \<and> length (getFilteredTodos
        ((todoInput_keypress (ascii ''Enter'') env1
            ((render (new_TodoApp page0))\<lparr>todoInput_value := ascii ''buy milk''\<rparr>))
         \<lparr>currentFilter := Filter_active\<rparr>)) = 1
   \<and> countSpan_innerHTML
        (todoInput_keypress (ascii ''Enter'') env1
           ((render (new_TodoApp page0))\<lparr>todoInput_value := ascii ''buy milk''\<rparr>))
       = ascii ''<strong>0</strong> items left''"
proof -
  let ?s0 = "new_TodoApp page0 :: unit TodoApp"
  let ?s1 = "(render ?s0)\<lparr>todoInput_value := ascii ''buy milk''\<rparr>"
  have l: "localStorage_todos ?s0 = None" "todoCount_parentElement ?s0" "todos ?s0 = []"
    by (simp_all add: new_TodoApp_def page0_def)
  have i: "init ?s0 = Inr (render ?s0)"
    using l(1) by (simp add: init_def loadFromStorage_def)
  have z: "toString10 0 = [0x30]"
    by (simp add: toString10.simps)
  have c: "countSpan_innerHTML (render ?s0) = ascii ''<strong>0</strong> items left''"
    using l(2,3) by (simp add: count_written_by_first_render activeTodos_def z) (simp add: ascii_def)
  have d: "\<not> todoCount_parentElement ?s1"
    by (simp add: count_detached_by_render)
  have e: "countSpan_innerHTML (todoInput_keypress (ascii ''Enter'') env1 ?s1)
             = ascii ''<strong>0</strong> items left''"
    using countSpan_keypress [OF d] c by simp
  have t: "trim (ascii ''buy milk'') \<noteq> []"
    by (simp add: trim_def isWhiteSpace_def ascii_def)
  have f: "todos (todoInput_keypress (ascii ''Enter'') env1 ?s1)
             = [created (trim (ascii ''buy milk''), env1)]"
    using t l(3) by (simp add: todos_keypress)
  have g: "length (getFilteredTodos
             ((todoInput_keypress (ascii ''Enter'') env1 ?s1)\<lparr>currentFilter := Filter_active\<rparr>)) = 1"
    by (simp add: getFilteredTodos_def f created_def)
  show ?thesis using i c g e by simp
qed

subsection \<open>Editing with an empty title\<close>

text \<open>
  C2, as the code has it. In \<^verbatim>\<open>src/app.ts\<close>, when \<open>document.querySelector\<close> finds an
  element for the identifier, \<open>finishEdit\<close> with a title whose trimmed form is empty
  removes every record with that identifier: none is left in the collection or in the
  view under any filter. When it finds none, \<open>finishEdit\<close> changes nothing, and when
  the identifier makes no selector \<open>finishEdit\<close> ends with the exception. In the
  priority-enabled variant \<open>finishEdit\<close> with such a title changes nothing.
\<close>

theorem finishEdit_blank_deletes:
  assumes "trim newTitle = []"
  shows "finishEdit Element i newTitle s = Inr (deleteTodo i s)
         \<and> todos (deleteTodo i s) = filter (\<lambda>t. id' t \<noteq> i) (todos s)
         \<and> i \<notin> id' ` set (todos (deleteTodo i s))
         \<and> i \<notin> id' ` set (getFilteredTodos (setFilter f (deleteTodo i s)))
         \<and> finishEdit Null i newTitle s = Inr s
         \<and> finishEdit Invalid i newTitle s = Inl InvalidSelector
         \<and> finishEdit_p Element i newTitle sp = Inr sp
         \<and> finishEdit_p Null i newTitle sp = Inr sp"
proof -
  have t: "todos (deleteTodo i s) = filter (\<lambda>t. id' t \<noteq> i) (todos s)"
    by (simp add: deleteTodo_def)
  have a: "i \<notin> id' ` set (todos (deleteTodo i s))"
    by (auto simp: t)
  have v: "set (getFilteredTodos u) \<subseteq> set (todos u)" for u :: "unit TodoApp"
    by (auto simp: getFilteredTodos_satisfies)
  have b: "i \<notin> id' ` set (getFilteredTodos (setFilter f (deleteTodo i s)))"
    using a v [of "setFilter f (deleteTodo i s)"] by (auto simp: setFilter_def)
  show ?thesis
    using assms t a b by (simp add: finishEdit_def finishEdit_p_def ToBoolean_def)
qed

theorem finishEdit_blank_deletes_witness:
  "trim (ascii '' '') = []
   \<and> finishEdit Element (ascii ''b2'') (ascii '' '') app2 = Inr (deleteTodo (ascii ''b2'') app2)
   \<and> todos (deleteTodo (ascii ''b2'') app2) = [milk]
   \<and> finishEdit_p Element (ascii ''t3'') (ascii '' '') app_p = Inr app_p"
proof -
  have b: "trim (ascii '' '') = []"
    by (simp add: trim_def isWhiteSpace_def ascii_def)
  have c: "filter (\<lambda>t. id' t \<noteq> ascii ''b2'') (todos app2) = [milk]"
    by (simp add: app2_def page0_def milk_def bread_def ascii_def)
  show ?thesis
    using finishEdit_blank_deletes [OF b, of "ascii ''b2''" app2 Filter_all app_p]
      finishEdit_blank_deletes [OF b, of "ascii ''t3''" app2 Filter_all app_p] b c
    by simp
qed

text \<open>
  In the priority-enabled variant the record \<open>tea\<close> is in the collection and its
  element is found, and it stays after \<open>finishEdit\<close> with the empty title. In
  \<^verbatim>\<open>src/app.ts\<close> the record \<open>bread\<close> stays when \<open>querySelector\<close> finds no element for it,
  as under a filter that hides it.
\<close>

theorem finishEdit_blank_counterexample:
  "trim [] = []
   \<and> ascii ''t3'' \<in> id' ` set (todos app_p)
   \<and> finishEdit_p Element (ascii ''t3'') [] app_p = Inr app_p
   \<and> ascii ''b2'' \<in> id' ` set (todos app2)
   \<and> finishEdit Null (ascii ''b2'') [] app2 = Inr app2"
  by (simp add: trim_def finishEdit_p_def finishEdit_def ToBoolean_def app_p_def app2_def
      page0_def tea_def milk_def bread_def)

subsection \<open>Loading\<close>

lemma loadFromStorage_absent:
  "localStorage_todos s = None \<or> localStorage_todos s = Some [] \<Longrightarrow> loadFromStorage s = Inr s"
  by (auto simp: loadFromStorage_def ToBoolean_def)

lemma loadFromStorage_p_absent:
  "localStorage_todos s = None \<or> localStorage_todos s = Some [] \<Longrightarrow> loadFromStorage_p s = Inr s"
  by (auto simp: loadFromStorage_p_def ToBoolean_def)

lemma loadFromStorage_not_array:
  "localStorage_todos s = Some text \<Longrightarrow> text \<noteq> [] \<Longrightarrow> JSON_parse text = Inr j \<Longrightarrow>
   \<forall>xs. j \<noteq> JArray xs \<Longrightarrow> loadFromStorage s = Inl TypeError"
  by (cases j) (simp_all add: loadFromStorage_def ToBoolean_def)

lemma loadFromStorage_p_not_array:
  "localStorage_todos s = Some text \<Longrightarrow> text \<noteq> [] \<Longrightarrow> JSON_parse text = Inr j \<Longrightarrow>
   \<forall>xs. j \<noteq> JArray xs \<Longrightarrow> loadFromStorage_p s = Inl TypeError"
  by (cases j) (simp_all add: loadFromStorage_p_def ToBoolean_def)

lemma JSON_parse_failure: "JSON_parse text = Inl e \<Longrightarrow> e = SyntaxError"
  by (auto simp: JSON_parse_def split: option.splits expecting.splits list.splits prod.splits)

text \<open>
  C3, as the code has it. When the slot is absent or holds the empty string,
  \<open>loadFromStorage\<close> raises nothing and leaves the state as it is, so the constructor
  ends with the empty collection. When the slot holds a text that \<open>JSON.parse\<close> rejects,
  \<open>loadFromStorage\<close> raises \<open>SyntaxError\<close>, and when the text denotes a value that is not
  an array it raises \<open>TypeError\<close>; neither is caught, and \<open>init\<close> ends with it.
\<close>

theorem load_absent_or_malformed:
  "(localStorage_todos s = None \<or> localStorage_todos s = Some [] \<longrightarrow>
      loadFromStorage s = Inr s)
   \<and> (localStorage_todos sp = None \<or> localStorage_todos sp = Some [] \<longrightarrow>
      loadFromStorage_p sp = Inr sp)
   \<and> (localStorage_todos s = Some text \<and> text \<noteq> [] \<and> JSON_parse text = Inl SyntaxError \<longrightarrow>
      loadFromStorage s = Inl SyntaxError \<and> init s = Inl SyntaxError)
   \<and> (localStorage_todos sp = Some text \<and> text \<noteq> [] \<and> JSON_parse text = Inl SyntaxError \<longrightarrow>
      loadFromStorage_p sp = Inl SyntaxError \<and> init_p sp = Inl SyntaxError)
   \<and> (localStorage_todos s = Some text \<and> text \<noteq> [] \<and> JSON_parse text = Inr j
        \<and> (\<forall>xs. j \<noteq> JArray xs) \<longrightarrow>
      loadFromStorage s = Inl TypeError \<and> init s = Inl TypeError)
   \<and> (localStorage_todos sp = Some text \<and> text \<noteq> [] \<and> JSON_parse text = Inr j
        \<and> (\<forall>xs. j \<noteq> JArray xs) \<longrightarrow>
      loadFromStorage_p sp = Inl TypeError \<and> init_p sp = Inl TypeError)
   \<and> (localStorage_todos d = None \<or> localStorage_todos d = Some [] \<longrightarrow>
      (\<exists>s'. init (new_TodoApp d) = Inr s' \<and> todos s' = []))
   \<and> (localStorage_todos dp = None \<or> localStorage_todos dp = Some [] \<longrightarrow>
      (\<exists>s'. init_p (new_TodoApp dp) = Inr s' \<and> todos s' = []))"
proof -
  have a: "loadFromStorage s = Inl SyntaxError \<and> init s = Inl SyntaxError"
    if "localStorage_todos s = Some text" "text \<noteq> []" "JSON_parse text = Inl SyntaxError"
    using that by (simp add: init_def loadFromStorage_def ToBoolean_def)
  have ap: "loadFromStorage_p sp = Inl SyntaxError \<and> init_p sp = Inl SyntaxError"
    if "localStorage_todos sp = Some text" "text \<noteq> []" "JSON_parse text = Inl SyntaxError"
    using that by (simp add: init_p_def loadFromStorage_p_def ToBoolean_def)
  have b: "loadFromStorage s = Inl TypeError \<and> init s = Inl TypeError"
    if "localStorage_todos s = Some text" "text \<noteq> []" "JSON_parse text = Inr j"
      "\<forall>xs. j \<noteq> JArray xs"
    using loadFromStorage_not_array [OF that] by (simp add: init_def)
  have bp: "loadFromStorage_p sp = Inl TypeError \<and> init_p sp = Inl TypeError"
    if "localStorage_todos sp = Some text" "text \<noteq> []" "JSON_parse text = Inr j"
      "\<forall>xs. j \<noteq> JArray xs"
    using loadFromStorage_p_not_array [OF that] by (simp add: init_p_def)
  have c: "\<exists>s'. init (new_TodoApp d) = Inr s' \<and> todos s' = []"
    if "localStorage_todos d = None \<or> localStorage_todos d = Some []"
  proof -
    have "localStorage_todos (new_TodoApp d) = None \<or> localStorage_todos (new_TodoApp d) = Some []"
      using that by (simp add: new_TodoApp_def)
    then have "init (new_TodoApp d) = Inr (render (new_TodoApp d))"
      by (simp add: init_def loadFromStorage_absent)
    then show ?thesis by (simp add: new_TodoApp_def)
  qed
  have cp: "\<exists>s'. init_p (new_TodoApp dp) = Inr s' \<and> todos s' = []"
    if "localStorage_todos dp = None \<or> localStorage_todos dp = Some []"
  proof -
    have "localStorage_todos (new_TodoApp dp) = None \<or> localStorage_todos (new_TodoApp dp) = Some []"
      using that by (simp add: new_TodoApp_def)
    then have "init_p (new_TodoApp dp) = Inr (render_p (new_TodoApp dp))"
      by (simp add: init_p_def loadFromStorage_p_absent)
    then show ?thesis by (simp add: new_TodoApp_def)
  qed
  show ?thesis
    using a ap b bp c cp loadFromStorage_absent [of s] loadFromStorage_p_absent [of sp]
    by blast
qed

theorem load_absent_or_malformed_witness:
  "loadFromStorage (app2\<lparr>localStorage_todos := None\<rparr>) = Inr (app2\<lparr>localStorage_todos := None\<rparr>)
   \<and> loadFromStorage_p (app_p\<lparr>localStorage_todos := Some []\<rparr>)
       = Inr (app_p\<lparr>localStorage_todos := Some []\<rparr>)
   \<and> JSON_parse (ascii ''{'') = Inl SyntaxError
   \<and> init (app2\<lparr>localStorage_todos := Some (ascii ''{'')\<rparr>) = Inl SyntaxError
   \<and> init_p (app_p\<lparr>localStorage_todos := Some (ascii ''{'')\<rparr>) = Inl SyntaxError
   \<and> JSON_parse (ascii ''{}'') = Inr (JObject [])
   \<and> init (app2\<lparr>localStorage_todos := Some (ascii ''{}'')\<rparr>) = Inl TypeError
   \<and> init_p (app_p\<lparr>localStorage_todos := Some (ascii ''{}'')\<rparr>) = Inl TypeError
   \<and> (\<exists>s'. init (new_TodoApp page0) = Inr s' \<and> todos s' = [])
   \<and> (\<exists>s'. init_p (new_TodoApp page0) = Inr s' \<and> todos s' = [])"
proof -
  have a: "JSON_parse (ascii ''{'') = Inl SyntaxError" "ascii ''{'' \<noteq> []"
    by (simp_all add: JSON_parse_def ascii_def)
  have b: "JSON_parse (ascii ''{}'') = Inr (JObject [])" "ascii ''{}'' \<noteq> []"
    "\<forall>xs. JObject [] \<noteq> JArray xs"
    by (simp_all add: JSON_parse_def ascii_def)
  have c: "localStorage_todos (page0 :: unit TodoApp) = None"
    "localStorage_todos (page0 :: unit ptodo_ext TodoApp) = None"
    by (simp_all add: page0_def)
  show ?thesis
    using load_absent_or_malformed [of "app2\<lparr>localStorage_todos := None\<rparr>"
        "app_p\<lparr>localStorage_todos := Some []\<rparr>" "[]" JNull page0 page0]
      load_absent_or_malformed [of "app2\<lparr>localStorage_todos := Some (ascii ''{'')\<rparr>"
        "app_p\<lparr>localStorage_todos := Some (ascii ''{'')\<rparr>" "ascii ''{''" JNull page0 page0]
      load_absent_or_malformed [of "app2\<lparr>localStorage_todos := Some (ascii ''{}'')\<rparr>"
        "app_p\<lparr>localStorage_todos := Some (ascii ''{}'')\<rparr>" "ascii ''{}''" "JObject []"
        page0 page0]
      a b c
    by simp
qed

text \<open>
  A slot that holds an opening brace: no JSON, and the constructor ends with
  \<open>SyntaxError\<close> instead of the empty collection.
\<close>

theorem load_malformed_counterexample:
  "loadFromStorage (new_TodoApp (page0\<lparr>localStorage_todos := Some (ascii ''{'')\<rparr>))
     = Inl SyntaxError
   \<and> init (new_TodoApp (page0\<lparr>localStorage_todos := Some (ascii ''{'')\<rparr>)) = Inl SyntaxError"
  by (simp add: init_def loadFromStorage_def new_TodoApp_def page0_def ToBoolean_def
      JSON_parse_def ascii_def)

end
